theory Spec2Isabelle
  imports Complex_Main "HOL-Library.AList" "HOL-Library.Multiset"
begin

section \<open>Python values and arithmetic helpers\<close>

text \<open>
  Python floats are modelled as real numbers: every statement below is about the
  arithmetic the code writes down, not about binary rounding of the machine format.
  Exceptions are values of type \<open>py_error\<close>; a function that may raise returns
  \<open>py_error + 'a\<close> with \<open>Inl\<close> the exception.
\<close>

datatype py_error =
  ValueError | TypeError | ZeroDivisionError | MultipleResultsFound | DBAPIError

text \<open>
  \<open>round(x, nd)\<close> of Python: the nearest multiple of \<open>10 ^ -nd\<close>, a tie going to
  the even one.
\<close>

definition py_round :: "nat \<Rightarrow> real \<Rightarrow> real" where
  "py_round nd x =
     (let y = x * 10 ^ nd; f = \<lfloor>y\<rfloor>; r = y - of_int f
      in of_int (if r < 1 / 2 then f
                 else if 1 / 2 < r then f + 1
                 else if even f then f else f + 1) / 10 ^ nd)"

text \<open>Truthiness of an optional number: \<open>None\<close> and zero are both false.\<close>

definition truthy_float :: "real option \<Rightarrow> bool" where
  "truthy_float v = (case v of None \<Rightarrow> False | Some x \<Rightarrow> x \<noteq> 0)"

definition truthy_int :: "int option \<Rightarrow> bool" where
  "truthy_int v = (case v of None \<Rightarrow> False | Some x \<Rightarrow> x \<noteq> 0)"

text \<open>\<open>min(...)\<close> over a generator: raises \<open>ValueError\<close> when nothing is generated.\<close>

fun py_min :: "real list \<Rightarrow> py_error + real" where
  "py_min [] = Inl ValueError"
| "py_min (x # xs) = Inr (fold min xs x)"

section \<open>utils/geo.py\<close>

definition radians :: "real \<Rightarrow> real" where
  "radians d = d * pi / 180"

definition atan2 :: "real \<Rightarrow> real \<Rightarrow> real" where
  "atan2 y x =
     (if 0 < x then arctan (y / x)
      else if x < 0 then (if 0 \<le> y then arctan (y / x) + pi else arctan (y / x) - pi)
      else if 0 < y then pi / 2
      else if y < 0 then - (pi / 2)
      else 0)"

definition haversine_distance :: "real \<Rightarrow> real \<Rightarrow> real \<Rightarrow> real \<Rightarrow> real" where
  "haversine_distance lat1 lon1 lat2 lon2 =
     (let R = 6371000;
          phi1 = radians lat1;
          phi2 = radians lat2;
          delta_phi = radians (lat2 - lat1);
          delta_lambda = radians (lon2 - lon1);
          a = (sin (delta_phi / 2))\<^sup>2
              + cos phi1 * cos phi2 * (sin (delta_lambda / 2))\<^sup>2;
          c = 2 * atan2 (sqrt a) (sqrt (1 - a))
      in R * c)"

section \<open>models/poi.py and services/poi\_service.py\<close>

record poi =
  poi_id :: int
  poi_name :: string
  category_id :: int
  poi_latitude :: "real option"
  poi_longitude :: "real option"
  rating :: "real option"


section \<open>JSON parameter bags\<close>

text \<open>
  \<open>ScoringRule.parameters\<close> is a JSON column: a dict of arbitrary JSON values, or
  NULL. Integers and floats are both \<open>JNum\<close>.
\<close>

datatype json =
    JNull
  | JBool bool
  | JNum real
  | JStr string
  | JArr "json list"
  | JObj "(string \<times> json) list"

fun py_truthy :: "json \<Rightarrow> bool" where
  "py_truthy JNull = False"
| "py_truthy (JBool b) = b"
| "py_truthy (JNum x) = (x \<noteq> 0)"
| "py_truthy (JStr s) = (s \<noteq> [])"
| "py_truthy (JArr xs) = (xs \<noteq> [])"
| "py_truthy (JObj kvs) = (kvs \<noteq> [])"

text \<open>\<open>params.get(key, default)\<close>.\<close>

definition dict_get :: "(string \<times> json) list \<Rightarrow> string \<Rightarrow> json \<Rightarrow> json" where
  "dict_get params k dflt = (case map_of params k of None \<Rightarrow> dflt | Some v \<Rightarrow> v)"

text \<open>
  \<open>float(v)\<close> on a JSON value. What \<open>float\<close> makes of a string is Python's own
  parser; it is the parameter \<open>fs\<close>, \<open>None\<close> where the parser raises
  \<open>ValueError\<close>.
\<close>

fun py_float :: "(string \<Rightarrow> real option) \<Rightarrow> json \<Rightarrow> py_error + real" where
  "py_float fs (JNum x) = Inr x"
| "py_float fs (JBool b) = Inr (if b then 1 else 0)"
| "py_float fs (JStr s) = (case fs s of None \<Rightarrow> Inl ValueError | Some x \<Rightarrow> Inr x)"
| "py_float fs JNull = Inl TypeError"
| "py_float fs (JArr xs) = Inl TypeError"
| "py_float fs (JObj kvs) = Inl TypeError"

text \<open>\<open>count / target_count\<close> with an integer \<open>count\<close> and a JSON divisor.\<close>

fun py_div_json :: "nat \<Rightarrow> json \<Rightarrow> py_error + real" where
  "py_div_json n (JNum x) = (if x = 0 then Inl ZeroDivisionError else Inr (real n / x))"
| "py_div_json n (JBool b) = (if b then Inr (real n) else Inl ZeroDivisionError)"
| "py_div_json n JNull = Inl TypeError"
| "py_div_json n (JStr s) = Inl TypeError"
| "py_div_json n (JArr xs) = Inl TypeError"
| "py_div_json n (JObj kvs) = Inl TypeError"

text \<open>
  \<open>for cat_id in categories\<close>: a list yields its elements, a string its characters,
  a dict its keys; a number or \<open>True\<close> is not iterable. (Falsy values never get
  here.)
\<close>

fun py_iter :: "json \<Rightarrow> py_error + json list" where
  "py_iter (JArr xs) = Inr xs"
| "py_iter (JStr s) = Inr (map (\<lambda>c. JStr [c]) s)"
| "py_iter (JObj kvs) = Inr (map (\<lambda>(k, v). JStr k) kvs)"
| "py_iter JNull = Inl TypeError"
| "py_iter (JBool b) = Inl TypeError"
| "py_iter (JNum x) = Inl TypeError"

section \<open>models: listings, rules, profiles, materialised rows\<close>

record listing =
  prop_id :: int
  external_id :: "string option"
  title :: string
  description :: "string option"
  price :: "real option"
  currency :: string
  operation :: string
  bedrooms :: "int option"
  bathrooms :: "int option"
  area_m2 :: "real option"
  address :: "string option"
  city :: "string option"
  postal_code :: "string option"
  latitude :: "real option"
  longitude :: "real option"
  data_source_id :: "int option"

record scoring_rule =
  rule_id :: int
  rule_profile_id :: int
  rule_type :: string
  poi_category_id :: "int option"
  max_distance_m :: "real option"
  weight :: real
  parameters :: "(string \<times> json) list option"

record search_profile =
  profile_id :: int
  user_id :: int
  profile_name :: string
  scoring_rules :: "scoring_rule list"

record property_poi_distance =
  dist_property_id :: int
  dist_poi_id :: int
  distance_m :: real

record breakdown_entry =
  raw_value :: real
  entry_weight :: real
  weighted :: real

record property_score =
  score_property_id :: int
  score_profile_id :: int
  total_score :: real
  breakdown :: "(string \<times> breakdown_entry) list"
  computed_at :: real

text \<open>
  The database session. Every table is the list of its rows in scan order, which
  is the order a \<open>select\<close> without \<open>ORDER BY\<close> returns them in.
\<close>

record db =
  profiles :: "search_profile list"
  properties :: "listing list"
  pois :: "poi list"
  poi_distances :: "property_poi_distance list"
  property_scores :: "property_score list"

text \<open>
  The value of a listing attribute as \<open>getattr(prop, name, None)\<close> followed by
  \<open>float(...)\<close> sees it.
\<close>

datatype pyval = PNone | PNum real | PStr string

definition opt_num :: "real option \<Rightarrow> pyval" where
  "opt_num v = (case v of None \<Rightarrow> PNone | Some x \<Rightarrow> PNum x)"

definition opt_int :: "int option \<Rightarrow> pyval" where
  "opt_int v = (case v of None \<Rightarrow> PNone | Some x \<Rightarrow> PNum (of_int x))"

definition opt_str :: "string option \<Rightarrow> pyval" where
  "opt_str v = (case v of None \<Rightarrow> PNone | Some s \<Rightarrow> PStr s)"

text \<open>
  \<open>getattr(prop, name, None)\<close> on the columns of the listing. Any other name gives
  the default \<open>None\<close>, or an object \<open>float\<close> rejects with \<open>TypeError\<close> (a method, a
  relationship, a timestamp, the metadata dict); the caller returns 0.0 in both
  cases, so they are one value here.
\<close>

definition getattr_property :: "listing \<Rightarrow> string \<Rightarrow> pyval" where
  "getattr_property p name =
     (if name = ''id'' then PNum (of_int (prop_id p))
      else if name = ''external_id'' then opt_str (external_id p)
      else if name = ''title'' then PStr (title p)
      else if name = ''description'' then opt_str (description p)
      else if name = ''price'' then opt_num (price p)
      else if name = ''currency'' then PStr (currency p)
      else if name = ''operation'' then PStr (operation p)
      else if name = ''bedrooms'' then opt_int (bedrooms p)
      else if name = ''bathrooms'' then opt_int (bathrooms p)
      else if name = ''area_m2'' then opt_num (area_m2 p)
      else if name = ''address'' then opt_str (address p)
      else if name = ''city'' then opt_str (city p)
      else if name = ''postal_code'' then opt_str (postal_code p)
      else if name = ''latitude'' then opt_num (latitude p)
      else if name = ''longitude'' then opt_num (longitude p)
      else if name = ''data_source_id'' then opt_int (data_source_id p)
      else PNone)"

section \<open>Rendering integers: \<open>str(n)\<close> inside an f-string\<close>

definition digit_char :: "nat \<Rightarrow> char" where
  "digit_char d = ''0123456789'' ! d"

fun str_nat :: "nat \<Rightarrow> string" where
  "str_nat n = (if n < 10 then [digit_char n]
                else str_nat (n div 10) @ [digit_char (n mod 10)])"

declare str_nat.simps [simp del]

definition str_int :: "int \<Rightarrow> string" where
  "str_int i = (if i < 0 then CHR ''-'' # str_nat (nat (- i)) else str_nat (nat i))"

section \<open>services/scoring\_service.py\<close>

text \<open>\<open>x or 1000.0\<close> for an optional float: \<open>None\<close> and 0.0 both give the default.\<close>

definition or_default :: "real option \<Rightarrow> real \<Rightarrow> real" where
  "or_default v dflt = (case v of None \<Rightarrow> dflt | Some x \<Rightarrow> if x \<noteq> 0 then x else dflt)"

text \<open>\<open>rule.parameters or {}\<close>.\<close>

definition params_of :: "scoring_rule \<Rightarrow> (string \<times> json) list" where
  "params_of rule = (case parameters rule of None \<Rightarrow> [] | Some kvs \<Rightarrow> kvs)"

text \<open>\<open>select(POI).where(POI.category_id == c)\<close> for an integer \<open>c\<close>.\<close>

definition pois_of_category :: "db \<Rightarrow> int \<Rightarrow> poi list" where
  "pois_of_category d c = filter (\<lambda>p. category_id p = c) (pois d)"

text \<open>
  The same query with a category id taken from the JSON parameter bag. A number
  is compared by value, \<open>null\<close> matches no row of the NOT NULL column, text is not
  coerced and matches no row, and a list or dict cannot be bound as a parameter.
\<close>

fun pois_of_json_category :: "db \<Rightarrow> json \<Rightarrow> py_error + poi list" where
  "pois_of_json_category d (JNum x) =
     Inr (filter (\<lambda>p. real_of_int (category_id p) = x) (pois d))"
| "pois_of_json_category d (JBool b) =
     Inr (filter (\<lambda>p. category_id p = (if b then 1 else 0)) (pois d))"
| "pois_of_json_category d JNull = Inr []"
| "pois_of_json_category d (JStr s) = Inr []"
| "pois_of_json_category d (JArr xs) = Inl DBAPIError"
| "pois_of_json_category d (JObj kvs) = Inl DBAPIError"

text \<open>
  The generator \<open>haversine_distance(...) for p in pois if p.latitude and p.longitude\<close>.
\<close>

definition live_distances :: "real \<Rightarrow> real \<Rightarrow> poi list \<Rightarrow> real list" where
  "live_distances la lo ps =
     map (\<lambda>p. haversine_distance la lo (the (poi_latitude p)) (the (poi_longitude p)))
       (filter (\<lambda>p. truthy_float (poi_latitude p) \<and> truthy_float (poi_longitude p)) ps)"

text \<open>
  The pre-computed distance query: rows of the listing joined with the POIs of
  the category, ordered by distance, \<open>limit(1)\<close>, \<open>scalar_one_or_none()\<close>.
\<close>

definition nearest_precomputed :: "db \<Rightarrow> int \<Rightarrow> int \<Rightarrow> property_poi_distance option" where
  "nearest_precomputed d pid c =
     (case sort_key distance_m
             (filter (\<lambda>r. dist_property_id r = pid
                          \<and> list_ex (\<lambda>p. poi_id p = dist_poi_id r \<and> category_id p = c) (pois d))
                (poi_distances d)) of
        [] \<Rightarrow> None
      | r # _ \<Rightarrow> Some r)"

definition eval_poi_proximity :: "db \<Rightarrow> scoring_rule \<Rightarrow> listing \<Rightarrow> py_error + real" where
  "eval_poi_proximity d rule prop =
     (if \<not> truthy_float (latitude prop) \<or> \<not> truthy_float (longitude prop)
         \<or> \<not> truthy_int (poi_category_id rule)
      then Inr 0
      else
        let max_dist = or_default (max_distance_m rule) 1000;
            c = the (poi_category_id rule)
        in case nearest_precomputed d (prop_id prop) c of
             Some nearest \<Rightarrow>
               if distance_m nearest > max_dist then Inr 0
               else Inr (max 0 (1 - distance_m nearest / max_dist))
           | None \<Rightarrow>
               let ps = pois_of_category d c
               in if ps = [] then Inr 0
                  else case py_min (live_distances (the (latitude prop))
                                      (the (longitude prop)) ps) of
                         Inl e \<Rightarrow> Inl e
                       | Inr min_dist \<Rightarrow>
                           if min_dist > max_dist then Inr 0
                           else Inr (max 0 (1 - min_dist / max_dist)))"

definition eval_poi_density :: "db \<Rightarrow> scoring_rule \<Rightarrow> listing \<Rightarrow> py_error + real" where
  "eval_poi_density d rule prop =
     (if \<not> truthy_float (latitude prop) \<or> \<not> truthy_float (longitude prop)
         \<or> \<not> truthy_int (poi_category_id rule)
      then Inr 0
      else
        let params = params_of rule;
            radius = or_default (max_distance_m rule) 1000;
            target_count = dict_get params ''target_count'' (JNum 5);
            ps = pois_of_category d (the (poi_category_id rule));
            count = length (filter (\<lambda>p. truthy_float (poi_latitude p)
                                      \<and> truthy_float (poi_longitude p)
                                      \<and> haversine_distance (the (latitude prop))
                                            (the (longitude prop)) (the (poi_latitude p))
                                            (the (poi_longitude p)) \<le> radius) ps)
        in case py_div_json count target_count of
             Inl e \<Rightarrow> Inl e
           | Inr q \<Rightarrow> Inr (min q 1))"

fun float_pyval :: "(string \<Rightarrow> real option) \<Rightarrow> pyval \<Rightarrow> py_error + real" where
  "float_pyval fs (PNum x) = Inr x"
| "float_pyval fs (PStr s) = (case fs s of None \<Rightarrow> Inl ValueError | Some x \<Rightarrow> Inr x)"
| "float_pyval fs PNone = Inl TypeError"

definition eval_property_attr ::
  "(string \<Rightarrow> real option) \<Rightarrow> scoring_rule \<Rightarrow> listing \<Rightarrow> py_error + real" where
  "eval_property_attr fs rule prop =
     (let params = params_of rule;
          attr_name = dict_get params ''attribute'' JNull;
          ideal = dict_get params ''ideal'' JNull;
          tolerance = dict_get params ''tolerance'' (JNum 0)
      in if \<not> py_truthy attr_name \<or> ideal = JNull then Inr 0
         else case attr_name of
                JStr name \<Rightarrow>
                  (let actual = getattr_property prop name
                   in if actual = PNone then Inr 0
                      else case (float_pyval fs actual, py_float fs ideal,
                                 py_float fs tolerance) of
                             (Inr a, Inr i, Inr t) \<Rightarrow>
                               if t = 0 then Inr (if a = i then 1 else 0)
                               else Inr (max 0 (1 - \<bar>a - i\<bar> / t))
                           | _ \<Rightarrow> Inr 0)
              | _ \<Rightarrow> Inl TypeError)"

text \<open>A loop that appends one value per element and stops at the first exception.\<close>

fun sequence_err :: "('e + 'a) list \<Rightarrow> 'e + 'a list" where
  "sequence_err [] = Inr []"
| "sequence_err (x # xs) =
     (case x of
        Inl e \<Rightarrow> Inl e
      | Inr v \<Rightarrow> (case sequence_err xs of Inl e \<Rightarrow> Inl e | Inr vs \<Rightarrow> Inr (v # vs)))"

definition walk_category_score ::
  "db \<Rightarrow> real \<Rightarrow> real \<Rightarrow> real \<Rightarrow> json \<Rightarrow> py_error + real" where
  "walk_category_score d la lo max_dist cat_id =
     (case pois_of_json_category d cat_id of
        Inl e \<Rightarrow> Inl e
      | Inr ps \<Rightarrow>
          if ps = [] then Inr 0
          else case py_min (live_distances la lo ps) of
                 Inl e \<Rightarrow> Inl e
               | Inr min_dist \<Rightarrow> Inr (max 0 (1 - min_dist / max_dist)))"

definition eval_walkability :: "db \<Rightarrow> scoring_rule \<Rightarrow> listing \<Rightarrow> py_error + real" where
  "eval_walkability d rule prop =
     (if \<not> truthy_float (latitude prop) \<or> \<not> truthy_float (longitude prop) then Inr 0
      else
        let params = params_of rule;
            categories = dict_get params ''categories'' (JArr []);
            max_dist = or_default (max_distance_m rule) 1000
        in if \<not> py_truthy categories then Inr 0
           else case py_iter categories of
                  Inl e \<Rightarrow> Inl e
                | Inr cats \<Rightarrow>
                    (case sequence_err
                            (map (walk_category_score d (the (latitude prop))
                                    (the (longitude prop)) max_dist) cats) of
                       Inl e \<Rightarrow> Inl e
                     | Inr scores \<Rightarrow>
                         Inr (if scores \<noteq> [] then sum_list scores / real (length scores)
                              else 0)))"

definition evaluate_rule ::
  "(string \<Rightarrow> real option) \<Rightarrow> db \<Rightarrow> scoring_rule \<Rightarrow> listing \<Rightarrow> py_error + real" where
  "evaluate_rule fs d rule prop =
     (if rule_type rule = ''poi_proximity'' then eval_poi_proximity d rule prop
      else if rule_type rule = ''poi_density'' then eval_poi_density d rule prop
      else if rule_type rule = ''property_attr'' then eval_property_attr fs rule prop
      else if rule_type rule = ''walkability'' then eval_walkability d rule prop
      else Inr 0)"

text \<open>The breakdown key \<open>f"rule_{rule.id}_{rule.rule_type}"\<close>.\<close>

definition rule_key :: "scoring_rule \<Rightarrow> string" where
  "rule_key rule = ''rule_'' @ str_int (rule_id rule) @ ''_'' @ rule_type rule"

definition breakdown_of :: "real \<Rightarrow> scoring_rule \<Rightarrow> breakdown_entry" where
  "breakdown_of raw rule =
     \<lparr>raw_value = py_round 3 raw, entry_weight = weight rule,
      weighted = py_round 3 (raw * weight rule)\<rparr>"

text \<open>
  The loop of \<open>_score_property\<close> over the rules, on the accumulator
  \<open>(total, weight_sum, breakdown)\<close> (the total is \<open>total_acc\<close> here). The breakdown is a Python dict: assigning
  to a key that is present replaces its value in place, a new key is appended.
\<close>

fun score_loop ::
  "(string \<Rightarrow> real option) \<Rightarrow> db \<Rightarrow> listing \<Rightarrow> scoring_rule list
   \<Rightarrow> real \<times> real \<times> (string \<times> breakdown_entry) list
   \<Rightarrow> py_error + (real \<times> real \<times> (string \<times> breakdown_entry) list)" where
  "score_loop fs d prop [] acc = Inr acc"
| "score_loop fs d prop (rule # rules) (total_acc, weight_sum, bd) =
     (case evaluate_rule fs d rule prop of
        Inl e \<Rightarrow> Inl e
      | Inr raw \<Rightarrow>
          score_loop fs d prop rules
            (total_acc + raw * weight rule, weight_sum + weight rule,
             AList.update (rule_key rule) (breakdown_of raw rule) bd))"

definition score_property ::
  "(string \<Rightarrow> real option) \<Rightarrow> db \<Rightarrow> listing \<Rightarrow> scoring_rule list
   \<Rightarrow> py_error + (real \<times> (string \<times> breakdown_entry) list)" where
  "score_property fs d prop rules =
     (case score_loop fs d prop rules (0, 0, []) of
        Inl e \<Rightarrow> Inl e
      | Inr (total_acc, weight_sum, bd) \<Rightarrow>
          Inr (py_round 2 (if weight_sum > 0 then total_acc / weight_sum * 100 else 0), bd))"

text \<open>\<open>db.session.get(SearchProfile, profile_id)\<close>.\<close>

definition get_profile :: "db \<Rightarrow> int \<Rightarrow> search_profile option" where
  "get_profile d pid = find (\<lambda>p. profile_id p = pid) (profiles d)"

fun scalar_one_or_none :: "'a list \<Rightarrow> py_error + 'a option" where
  "scalar_one_or_none [] = Inr None"
| "scalar_one_or_none [x] = Inr (Some x)"
| "scalar_one_or_none (x # y # zs) = Inl MultipleResultsFound"

definition is_score_of :: "int \<Rightarrow> int \<Rightarrow> property_score \<Rightarrow> bool" where
  "is_score_of prid pid r = (score_property_id r = prid \<and> score_profile_id r = pid)"

text \<open>
  The loop of \<open>compute_scores\<close> over the listings, on the session and the
  counter \<open>count\<close> (\<open>cnt\<close> here). \<open>now n\<close> is the clock reading when row number \<open>n\<close>
  of the pass is written.
  An exception leaves the loop before \<open>commit\<close>.
\<close>

fun compute_loop ::
  "(string \<Rightarrow> real option) \<Rightarrow> int \<Rightarrow> scoring_rule list \<Rightarrow> (nat \<Rightarrow> real)
   \<Rightarrow> listing list \<Rightarrow> db \<times> nat \<Rightarrow> py_error + (db \<times> nat)" where
  "compute_loop fs pid rules now [] acc = Inr acc"
| "compute_loop fs pid rules now (prop # props) (d, cnt) =
     (case score_property fs d prop rules of
        Inl e \<Rightarrow> Inl e
      | Inr (score, bd) \<Rightarrow>
          (case scalar_one_or_none
                  (filter (is_score_of (prop_id prop) pid) (property_scores d)) of
             Inl e \<Rightarrow> Inl e
           | Inr (Some existing) \<Rightarrow>
               compute_loop fs pid rules now props
                 (d\<lparr>property_scores :=
                      map (\<lambda>r. if is_score_of (prop_id prop) pid r
                                then r\<lparr>total_score := score, breakdown := bd,
                                       computed_at := now cnt\<rparr>
                                else r) (property_scores d)\<rparr>,
                  cnt + 1)
           | Inr None \<Rightarrow>
               compute_loop fs pid rules now props
                 (d\<lparr>property_scores :=
                      property_scores d
                      @ [\<lparr>score_property_id = prop_id prop, score_profile_id = pid,
                          total_score = score, breakdown = bd,
                          computed_at = now cnt\<rparr>]\<rparr>,
                  cnt + 1)))"

definition compute_scores ::
  "(string \<Rightarrow> real option) \<Rightarrow> (nat \<Rightarrow> real) \<Rightarrow> db \<Rightarrow> int \<Rightarrow> py_error + (nat \<times> db)" where
  "compute_scores fs now d pid =
     (case get_profile d pid of
        None \<Rightarrow> Inr (0, d)
      | Some profile \<Rightarrow>
          if scoring_rules profile = [] then Inr (0, d)
          else case compute_loop fs pid (scoring_rules profile) now (properties d) (d, 0) of
                 Inl e \<Rightarrow> Inl e
               | Inr (d', cnt) \<Rightarrow> Inr (cnt, d'))"

text \<open>
  \<open>get_ranked_properties\<close>: the score rows of the profile joined with their
  listing, \<open>ORDER BY total_score DESC\<close> and nothing else. The sort is on that one
  key; rows with equal keys stay in scan order.
\<close>

definition joined_scores :: "db \<Rightarrow> int \<Rightarrow> (listing \<times> property_score) list" where
  "joined_scores d pid =
     concat (map (\<lambda>score. map (\<lambda>prop. (prop, score))
                              (filter (\<lambda>prop. prop_id prop = score_property_id score)
                                 (properties d)))
               (filter (\<lambda>score. score_profile_id score = pid) (property_scores d)))"

definition get_ranked_properties :: "db \<Rightarrow> int \<Rightarrow> (listing \<times> property_score) list" where
  "get_ranked_properties d pid =
     sort_key (\<lambda>(prop, score). - total_score score) (joined_scores d pid)"

section \<open>api/scores.py\<close>

datatype api_body =
    ErrorBody string
  | ItemsBody "(listing \<times> property_score) list" nat
  | ComputeBody string nat

definition get_scores :: "db \<Rightarrow> int \<Rightarrow> int \<Rightarrow> api_body \<times> nat" where
  "get_scores d uid pid =
     (case get_profile d pid of
        None \<Rightarrow> (ErrorBody ''Profile not found'', 404)
      | Some profile \<Rightarrow>
          if user_id profile \<noteq> uid then (ErrorBody ''Profile not found'', 404)
          else let ranked = get_ranked_properties d pid
               in (ItemsBody ranked (length ranked), 200))"

text \<open>The endpoint \<open>POST /<profile_id>/compute\<close> (\<open>compute_scores\<close> of the blueprint).\<close>

definition api_compute_scores ::
  "(string \<Rightarrow> real option) \<Rightarrow> (nat \<Rightarrow> real) \<Rightarrow> db \<Rightarrow> int \<Rightarrow> int
   \<Rightarrow> py_error + ((api_body \<times> nat) \<times> db)" where
  "api_compute_scores fs now d uid pid =
     (case get_profile d pid of
        None \<Rightarrow> Inr ((ErrorBody ''Profile not found'', 404), d)
      | Some profile \<Rightarrow>
          if user_id profile \<noteq> uid then Inr ((ErrorBody ''Profile not found'', 404), d)
          else case compute_scores fs now d pid of
                 Inl e \<Rightarrow> Inl e
               | Inr (cnt, d') \<Rightarrow>
                   Inr ((ComputeBody (''Scored '' @ str_nat cnt @ '' properties'') cnt,
                         200), d'))"

section \<open>Specification devices and sample data\<close>

text \<open>
  A POI whose latitude or longitude is zero, with both coordinates removed: what
  the catalogue would hold if that coordinate were absent.
\<close>

definition without_zero_coordinates :: "poi \<Rightarrow> poi" where
  "without_zero_coordinates p =
     (if poi_latitude p = Some 0 \<or> poi_longitude p = Some 0
      then p\<lparr>poi_latitude := None, poi_longitude := None\<rparr>
      else p)"

definition location_rule_types :: "string set" where
  "location_rule_types = {''poi_proximity'', ''poi_density'', ''walkability''}"


text \<open>The part of a materialised row that a recomputation must reproduce.\<close>

definition score_content ::
  "property_score \<Rightarrow> int \<times> int \<times> real \<times> (string \<times> breakdown_entry) list" where
  "score_content r = (score_property_id r, score_profile_id r, total_score r, breakdown r)"

text \<open>
  Devices for reasoning about a pass of \<open>compute_scores\<close>: the change a pass makes
  to one row, the upsert of one listing on the table, the listing that is scored
  last under a given id, and the content a pass gives to a row.
\<close>

definition refresh_row ::
  "int \<Rightarrow> int \<Rightarrow> real \<Rightarrow> (string \<times> breakdown_entry) list \<Rightarrow> real
   \<Rightarrow> property_score \<Rightarrow> property_score" where
  "refresh_row prid pid sc bd t r =
     (if is_score_of prid pid r
      then r\<lparr>total_score := sc, breakdown := bd, computed_at := t\<rparr>
      else r)"

definition upsert_score ::
  "int \<Rightarrow> int \<Rightarrow> real \<Rightarrow> (string \<times> breakdown_entry) list \<Rightarrow> real
   \<Rightarrow> property_score list \<Rightarrow> property_score list" where
  "upsert_score prid pid sc bd t rows =
     (if filter (is_score_of prid pid) rows = []
      then rows @ [\<lparr>score_property_id = prid, score_profile_id = pid, total_score = sc,
                    breakdown = bd, computed_at = t\<rparr>]
      else map (refresh_row prid pid sc bd t) rows)"

fun latest :: "listing list \<Rightarrow> int \<Rightarrow> listing option" where
  "latest [] k = None"
| "latest (p # ps) k =
     (case latest ps k of
        Some q \<Rightarrow> Some q
      | None \<Rightarrow> if prop_id p = k then Some p else None)"

definition rescored ::
  "(string \<Rightarrow> real option) \<Rightarrow> db \<Rightarrow> int \<Rightarrow> scoring_rule list \<Rightarrow> listing list
   \<Rightarrow> property_score \<Rightarrow> int \<times> int \<times> real \<times> (string \<times> breakdown_entry) list" where
  "rescored fs d pid rules props r =
     (if score_profile_id r = pid
      then (case latest props (score_property_id r) of
              None \<Rightarrow> score_content r
            | Some q \<Rightarrow>
                (case score_property fs d q rules of
                   Inl e \<Rightarrow> score_content r
                 | Inr (sc, bd) \<Rightarrow> (score_property_id r, score_profile_id r, sc, bd)))
      else score_content r)"

text \<open>A flat near Barcelona (coordinates in whole degrees), the same flat moved onto the equator, and a metro station.\<close>

definition flat_bcn :: listing where
  "flat_bcn =
     \<lparr>prop_id = 1, external_id = None, title = ''Flat'', description = None,
      price = Some 250000, currency = ''EUR'', operation = ''sale'', bedrooms = Some 3,
      bathrooms = Some 1, area_m2 = Some 80, address = None, city = Some ''Barcelona'',
      postal_code = None, latitude = Some 41, longitude = Some 2,
      data_source_id = None\<rparr>"

definition flat_equator :: listing where
  "flat_equator = flat_bcn\<lparr>latitude := Some 0\<rparr>"

definition metro :: poi where
  "metro =
     \<lparr>poi_id = 1, poi_name = ''Metro'', category_id = 1,
      poi_latitude = Some 41, poi_longitude = Some 2,
      rating = None\<rparr>"

definition metro_unlocated :: poi where
  "metro_unlocated = metro\<lparr>poi_latitude := None, poi_longitude := None\<rparr>"

definition proximity_rule :: scoring_rule where
  "proximity_rule =
     \<lparr>rule_id = 1, rule_profile_id = 1, rule_type = ''poi_proximity'',
      poi_category_id = Some 1, max_distance_m = Some 1000, weight = 1,
      parameters = None\<rparr>"

definition bedrooms_rule :: scoring_rule where
  "bedrooms_rule =
     \<lparr>rule_id = 2, rule_profile_id = 1, rule_type = ''property_attr'',
      poi_category_id = None, max_distance_m = None, weight = 1 / 2,
      parameters = Some [(''attribute'', JStr ''bedrooms''), (''ideal'', JNum 1),
                         (''tolerance'', JNum (- 1))]\<rparr>"


definition empty_db :: db where
  "empty_db = \<lparr>profiles = [], properties = [], pois = [], poi_distances = [],
               property_scores = []\<rparr>"

text \<open>
  A catalogue with the flat, one profile holding the proximity rule, and a single
  POI of the rule's category that has no coordinates.
\<close>

definition unlocated_db :: db where
  "unlocated_db =
     \<lparr>profiles = [\<lparr>profile_id = 1, user_id = 1, profile_name = ''Commuter'',
                   scoring_rules = [proximity_rule]\<rparr>],
      properties = [flat_bcn], pois = [metro_unlocated], poi_distances = [],
      property_scores = []\<rparr>"

text \<open>
  A catalogue with the flat, the located metro station, and the pre-computed
  distance of 400 m between them.
\<close>

definition metro_db :: db where
  "metro_db =
     \<lparr>profiles = [\<lparr>profile_id = 1, user_id = 1, profile_name = ''Commuter'',
                   scoring_rules = [proximity_rule]\<rparr>],
      properties = [flat_bcn], pois = [metro],
      poi_distances = [\<lparr>dist_property_id = 1, dist_poi_id = 1, distance_m = 400\<rparr>],
      property_scores = []\<rparr>"

text \<open>The row a pass over that catalogue writes for the flat at clock reading \<open>t\<close>.\<close>

definition metro_row :: "real \<Rightarrow> property_score" where
  "metro_row t =
     \<lparr>score_property_id = 1, score_profile_id = 1, total_score = 60,
      breakdown = [(''rule_1_poi_proximity'',
                    \<lparr>raw_value = 3 / 5, entry_weight = 1, weighted = 3 / 5\<rparr>)],
      computed_at = t\<rparr>"

text \<open>
  Two flats and their materialised rows for profile 1, both with the total 50;
  the row of flat 2 comes first in the scan of the table.
\<close>

definition tie_db :: db where
  "tie_db =
     \<lparr>profiles = [], properties = [flat_bcn, flat_bcn\<lparr>prop_id := 2\<rparr>], pois = [],
      poi_distances = [],
      property_scores =
        [\<lparr>score_property_id = 2, score_profile_id = 1, total_score = 50, breakdown = [],
          computed_at = 0\<rparr>,
         \<lparr>score_property_id = 1, score_profile_id = 1, total_score = 50, breakdown = [],
          computed_at = 0\<rparr>]\<rparr>"

definition no_parse :: "string \<Rightarrow> real option" where
  "no_parse s = None"

section \<open>Basic facts\<close>



section \<open>Proximity search\<close>




section \<open>Batch scoring: profiles without rules, profiles that do not exist\<close>

text \<open>
  Claim C7. For every profile with zero rules, \<open>compute_scores\<close> returns 0 and the
  session, the table of materialised scores included, is returned as it was.
\<close>

theorem compute_scores_no_rules:
  assumes "get_profile d pid = Some profile" and "scoring_rules profile = []"
  shows "compute_scores fs now d pid = Inr (0, d)"
  using assms by (simp add: compute_scores_def)

theorem compute_scores_no_rules_witness:
  "compute_scores no_parse (\<lambda>n. 0)
     (empty_db\<lparr>profiles := [\<lparr>profile_id = 1, user_id = 1, profile_name = ''p'',
                               scoring_rules = []\<rparr>],
               properties := [flat_bcn]\<rparr>) 1
   = Inr (0, empty_db\<lparr>profiles := [\<lparr>profile_id = 1, user_id = 1, profile_name = ''p'',
                               scoring_rules = []\<rparr>],
               properties := [flat_bcn]\<rparr>)"
  using compute_scores_no_rules [of
      "empty_db\<lparr>profiles := [\<lparr>profile_id = 1, user_id = 1, profile_name = ''p'',
                               scoring_rules = []\<rparr>],
               properties := [flat_bcn]\<rparr>" 1
      "\<lparr>profile_id = 1, user_id = 1, profile_name = ''p'', scoring_rules = []\<rparr>"
      no_parse "\<lambda>n. 0"]
  by (simp add: get_profile_def empty_db_def)

text \<open>
  Claim C9 fails on \<open>compute_scores\<close> itself: for a profile id without a profile
  it returns the count 0 and no error, which is also what a successful pass over
  an empty catalogue returns for a profile that exists and has a rule.
\<close>

theorem compute_scores_missing_profile_counterexample:
  "compute_scores no_parse (\<lambda>n. 0) (empty_db\<lparr>properties := [flat_bcn]\<rparr>) 7
     = Inr (0, empty_db\<lparr>properties := [flat_bcn]\<rparr>)
   \<and> compute_scores no_parse (\<lambda>n. 0)
       (empty_db\<lparr>profiles := [\<lparr>profile_id = 7, user_id = 1, profile_name = ''p'',
                                 scoring_rules = [proximity_rule]\<rparr>]\<rparr>) 7
     = Inr (0, empty_db\<lparr>profiles := [\<lparr>profile_id = 7, user_id = 1, profile_name = ''p'',
                                 scoring_rules = [proximity_rule]\<rparr>]\<rparr>)"
  by (simp add: compute_scores_def get_profile_def empty_db_def)

text \<open>
  Claim C9, amended. For every profile id that references no existing profile,
  \<open>compute_scores\<close> returns the count 0 without an error and leaves the session
  unchanged; the not-found error is raised one layer up, by the HTTP endpoints,
  which answer 404 "Profile not found" without calling the service, the session
  unchanged as well.
\<close>

theorem missing_profile_not_found:
  assumes "get_profile d pid = None"
  shows "compute_scores fs now d pid = Inr (0, d)
         \<and> api_compute_scores fs now d uid pid
             = Inr ((ErrorBody ''Profile not found'', 404), d)
         \<and> get_scores d uid pid = (ErrorBody ''Profile not found'', 404)"
  using assms by (simp add: compute_scores_def api_compute_scores_def get_scores_def)

theorem missing_profile_not_found_witness:
  "get_profile empty_db 7 = None
   \<and> compute_scores no_parse (\<lambda>n. 0) empty_db 7 = Inr (0, empty_db)
   \<and> api_compute_scores no_parse (\<lambda>n. 0) empty_db 1 7
       = Inr ((ErrorBody ''Profile not found'', 404), empty_db)"
  using missing_profile_not_found [of empty_db 7 no_parse "\<lambda>n. 0" 1]
  by (simp add: get_profile_def empty_db_def)

section \<open>Rule evaluation: exceptions and values outside the unit interval\<close>

text \<open>
  Claim C5 (the pipeline never raises) does not hold of the code. The category of
  the rule has one POI and that POI has no coordinates: \<open>if not pois\<close> lets the
  non-empty list through, the generator under \<open>min\<close> yields nothing, and
  \<open>ValueError\<close> leaves the rule, the listing and the whole pass.
\<close>

theorem proximity_raises_without_poi_coordinates:
  "eval_poi_proximity unlocated_db proximity_rule flat_bcn = Inl ValueError
   \<and> evaluate_rule no_parse unlocated_db proximity_rule flat_bcn = Inl ValueError
   \<and> score_property no_parse unlocated_db flat_bcn [proximity_rule] = Inl ValueError"
  by (simp add: score_property_def evaluate_rule_def eval_poi_proximity_def unlocated_db_def
      metro_unlocated_def metro_def proximity_rule_def flat_bcn_def truthy_float_def
      truthy_int_def or_default_def nearest_precomputed_def pois_of_category_def
      live_distances_def)

text \<open>The batch pass over that catalogue ends in the exception.\<close>

theorem proximity_raises_without_poi_coordinates_witness:
  "compute_scores no_parse (\<lambda>n. 0) unlocated_db 1 = Inl ValueError"
  using proximity_raises_without_poi_coordinates
  by (simp add: compute_scores_def get_profile_def unlocated_db_def)

text \<open>A rule of a type outside the four evaluated ones scores 0.0 and does not raise.\<close>

lemma evaluate_rule_unknown_type:
  assumes "rule_type rule \<notin> {''poi_proximity'', ''poi_density'', ''property_attr'',
                              ''walkability''}"
  shows "evaluate_rule fs d rule prop = Inr 0"
  using assms by (simp add: evaluate_rule_def)

text \<open>
  Claim C4 (every rule evaluates into [0,1]) does not hold of the code. An
  attribute rule on \<open>bedrooms\<close> with ideal 1 and tolerance -1, on a flat with three
  bedrooms, evaluates to \<open>max(0, 1 - 2 / -1) = 3\<close>.
\<close>

theorem attribute_rule_exceeds_one:
  "evaluate_rule no_parse empty_db bedrooms_rule flat_bcn = Inr 3"
  by (simp add: evaluate_rule_def eval_property_attr_def bedrooms_rule_def flat_bcn_def
      params_of_def dict_get_def getattr_property_def opt_int_def)

section \<open>Proximity rule\<close>







section \<open>Zero coordinates\<close>

lemma truthy_float_zero: "truthy_float (Some 0) = False"
  by (simp add: truthy_float_def)

lemma truthy_float_None: "truthy_float None = False"
  by (simp add: truthy_float_def)

lemma truthy_without_zero:
  "(truthy_float (poi_latitude (without_zero_coordinates p))
    \<and> truthy_float (poi_longitude (without_zero_coordinates p)))
   = (truthy_float (poi_latitude p) \<and> truthy_float (poi_longitude p))"
  by (auto simp: without_zero_coordinates_def truthy_float_def split: option.splits)

lemma coords_without_zero:
  "truthy_float (poi_latitude p) \<Longrightarrow> truthy_float (poi_longitude p)
   \<Longrightarrow> without_zero_coordinates p = p"
  by (auto simp: without_zero_coordinates_def truthy_float_def split: option.splits)

lemma category_without_zero [simp]:
  "category_id (without_zero_coordinates p) = category_id p"
  by (simp add: without_zero_coordinates_def)

lemma poi_id_without_zero [simp]:
  "poi_id (without_zero_coordinates p) = poi_id p"
  by (simp add: without_zero_coordinates_def)

lemma live_distances_without_zero:
  "live_distances la lo (map without_zero_coordinates ps) = live_distances la lo ps"
proof (induction ps)
  case Nil
  show ?case by (simp add: live_distances_def)
next
  case (Cons p ps)
  show ?case
  proof (cases "truthy_float (poi_latitude p) \<and> truthy_float (poi_longitude p)")
    case True
    then have "without_zero_coordinates p = p" by (simp add: coords_without_zero)
    with Cons True show ?thesis by (simp add: live_distances_def)
  next
    case False
    with truthy_without_zero [of p]
    have "\<not> (truthy_float (poi_latitude (without_zero_coordinates p))
             \<and> truthy_float (poi_longitude (without_zero_coordinates p)))" by simp
    with Cons False show ?thesis by (simp add: live_distances_def)
  qed
qed

lemma density_filter_without_zero:
  "length (filter (\<lambda>p. truthy_float (poi_latitude p) \<and> truthy_float (poi_longitude p)
                      \<and> haversine_distance la lo (the (poi_latitude p))
                            (the (poi_longitude p)) \<le> r)
             (map without_zero_coordinates ps))
   = length (filter (\<lambda>p. truthy_float (poi_latitude p) \<and> truthy_float (poi_longitude p)
                      \<and> haversine_distance la lo (the (poi_latitude p))
                            (the (poi_longitude p)) \<le> r) ps)"
proof (induction ps)
  case Nil
  show ?case by simp
next
  case (Cons p ps)
  show ?case
  proof (cases "truthy_float (poi_latitude p) \<and> truthy_float (poi_longitude p)")
    case True
    then have "without_zero_coordinates p = p" by (simp add: coords_without_zero)
    with Cons show ?thesis by simp
  next
    case False
    with truthy_without_zero [of p]
    have "\<not> (truthy_float (poi_latitude (without_zero_coordinates p))
             \<and> truthy_float (poi_longitude (without_zero_coordinates p)))" by simp
    with Cons False show ?thesis by auto
  qed
qed

lemma pois_of_category_without_zero:
  "pois_of_category (d\<lparr>pois := map without_zero_coordinates (pois d)\<rparr>) c
   = map without_zero_coordinates (pois_of_category d c)"
  by (simp add: pois_of_category_def filter_map comp_def)

lemma pois_of_json_category_without_zero:
  "pois_of_json_category (d\<lparr>pois := map without_zero_coordinates (pois d)\<rparr>) j
   = map_sum id (map without_zero_coordinates) (pois_of_json_category d j)"
  by (cases j) (simp_all add: filter_map comp_def)

lemma nearest_precomputed_without_zero:
  "nearest_precomputed (d\<lparr>pois := map without_zero_coordinates (pois d)\<rparr>) pid c
   = nearest_precomputed d pid c"
  by (simp add: nearest_precomputed_def list_ex_iff)

lemma eval_poi_proximity_without_zero:
  "eval_poi_proximity (d\<lparr>pois := map without_zero_coordinates (pois d)\<rparr>) rule prop
   = eval_poi_proximity d rule prop"
  by (simp add: eval_poi_proximity_def nearest_precomputed_without_zero
      pois_of_category_without_zero live_distances_without_zero Let_def
      split: option.split)

lemma eval_poi_density_without_zero:
  "eval_poi_density (d\<lparr>pois := map without_zero_coordinates (pois d)\<rparr>) rule prop
   = eval_poi_density d rule prop"
  unfolding eval_poi_density_def Let_def pois_of_category_without_zero
    density_filter_without_zero
  by (rule refl)

lemma walk_category_score_without_zero:
  "walk_category_score (d\<lparr>pois := map without_zero_coordinates (pois d)\<rparr>) la lo m
   = walk_category_score d la lo m"
proof
  fix j
  show "walk_category_score (d\<lparr>pois := map without_zero_coordinates (pois d)\<rparr>) la lo m j
        = walk_category_score d la lo m j"
    by (cases "pois_of_json_category d j")
       (simp_all add: walk_category_score_def pois_of_json_category_without_zero
          live_distances_without_zero)
qed

lemma eval_walkability_without_zero:
  "eval_walkability (d\<lparr>pois := map without_zero_coordinates (pois d)\<rparr>) rule prop
   = eval_walkability d rule prop"
  unfolding eval_walkability_def Let_def walk_category_score_without_zero
  by (rule refl)

text \<open>
  Claim C10. For every listing whose latitude or longitude is exactly 0, every
  location-based rule (proximity, density, walkability) evaluates to 0.0, which is
  also its value on the same listing without coordinates. POIs with a zero
  latitude or longitude take no part in live distances: every rule evaluates the
  same on the catalogue in which those POIs have no coordinates, and the list of
  live distances is the list computed without them.
\<close>

theorem zero_coordinate_is_absent:
  assumes "latitude prop = Some 0 \<or> longitude prop = Some 0"
      and "rule_type rule \<in> location_rule_types"
  shows "evaluate_rule fs d rule prop = Inr 0
         \<and> evaluate_rule fs d rule (prop\<lparr>latitude := None, longitude := None\<rparr>) = Inr 0
         \<and> (\<forall>q. evaluate_rule fs (d\<lparr>pois := map without_zero_coordinates (pois d)\<rparr>) rule q
                  = evaluate_rule fs d rule q)
         \<and> (\<forall>la lo ps. live_distances la lo ps
                  = live_distances la lo
                      (filter (\<lambda>p. poi_latitude p \<noteq> Some 0 \<and> poi_longitude p \<noteq> Some 0) ps))"
proof (intro conjI allI)
  from assms(1) have z: "\<not> truthy_float (latitude prop) \<or> \<not> truthy_float (longitude prop)"
    by (auto simp: truthy_float_def)
  from assms(2) z show "evaluate_rule fs d rule prop = Inr 0"
    by (auto simp: location_rule_types_def evaluate_rule_def eval_poi_proximity_def
        eval_poi_density_def eval_walkability_def)
  from assms(2)
  show "evaluate_rule fs d rule (prop\<lparr>latitude := None, longitude := None\<rparr>) = Inr 0"
    by (auto simp: location_rule_types_def evaluate_rule_def eval_poi_proximity_def
        eval_poi_density_def eval_walkability_def truthy_float_def)
next
  fix q
  show "evaluate_rule fs (d\<lparr>pois := map without_zero_coordinates (pois d)\<rparr>) rule q
        = evaluate_rule fs d rule q"
    by (simp add: evaluate_rule_def eval_poi_proximity_without_zero
        eval_poi_density_without_zero eval_walkability_without_zero)
next
  fix la lo :: real and ps :: "poi list"
  have "filter (\<lambda>p. truthy_float (poi_latitude p) \<and> truthy_float (poi_longitude p))
          (filter (\<lambda>p. poi_latitude p \<noteq> Some 0 \<and> poi_longitude p \<noteq> Some 0) ps)
        = filter (\<lambda>p. truthy_float (poi_latitude p) \<and> truthy_float (poi_longitude p)) ps"
    by (induction ps) (auto simp: truthy_float_def)
  then show "live_distances la lo ps
        = live_distances la lo
            (filter (\<lambda>p. poi_latitude p \<noteq> Some 0 \<and> poi_longitude p \<noteq> Some 0) ps)"
    by (simp only: live_distances_def)
qed


text \<open>
  The flat on the equator scores 0 on the proximity rule although the station is
  400 m away, where the flat with a non-zero latitude scores 0.6.
\<close>

theorem zero_coordinate_is_absent_witness:
  "latitude flat_equator = Some 0
   \<and> rule_type proximity_rule \<in> location_rule_types
   \<and> evaluate_rule no_parse metro_db proximity_rule flat_equator = Inr 0
   \<and> evaluate_rule no_parse metro_db proximity_rule flat_bcn = Inr (3 / 5)"
proof -
  have z: "latitude flat_equator = Some 0 \<or> longitude flat_equator = Some 0"
    by (simp add: flat_equator_def)
  have t: "rule_type proximity_rule \<in> location_rule_types"
    by (simp add: proximity_rule_def location_rule_types_def)
  have "evaluate_rule no_parse metro_db proximity_rule flat_bcn = Inr (3 / 5)"
    by (simp add: evaluate_rule_def eval_poi_proximity_def nearest_precomputed_def
        metro_db_def metro_def flat_bcn_def proximity_rule_def truthy_float_def
        truthy_int_def or_default_def)
  with zero_coordinate_is_absent [OF z t, of no_parse metro_db] z t show ?thesis
    by (simp add: flat_equator_def)
qed

section \<open>Ranking\<close>

text \<open>
  Claim C6 fails on ties: two rows with the total 50 come out with listing 2
  before listing 1, the order of the table scan.
\<close>

theorem ranked_ties_counterexample:
  "map (\<lambda>(prop, score). (prop_id prop, total_score score)) (get_ranked_properties tie_db 1)
   = [(2, 50), (1, 50)]"
  by (simp add: get_ranked_properties_def joined_scores_def tie_db_def flat_bcn_def)

text \<open>
  Claim C6, amended. For every profile, \<open>get_ranked_properties\<close> returns exactly
  the materialised rows of the profile joined with their listing, sorted
  descending by \<open>total_score\<close>; rows with equal \<open>total_score\<close> are not reordered by
  listing identity, they keep the order in which the store yields them.
\<close>

theorem ranked_by_total_score:
  "sorted_wrt (\<lambda>a b. total_score (snd b) \<le> total_score (snd a)) (get_ranked_properties d pid)
   \<and> mset (get_ranked_properties d pid) = mset (joined_scores d pid)
   \<and> set (joined_scores d pid)
       = {(prop, score). score \<in> set (property_scores d) \<and> score_profile_id score = pid
            \<and> prop \<in> set (properties d) \<and> prop_id prop = score_property_id score}
   \<and> (\<forall>k. filter (\<lambda>row. total_score (snd row) = k) (get_ranked_properties d pid)
            = filter (\<lambda>row. total_score (snd row) = k) (joined_scores d pid))"
proof (intro conjI allI)
  have "sorted (map (\<lambda>(prop, score). - total_score score) (get_ranked_properties d pid))"
    by (simp add: get_ranked_properties_def)
  then show "sorted_wrt (\<lambda>a b. total_score (snd b) \<le> total_score (snd a))
               (get_ranked_properties d pid)"
    by (simp add: sorted_map case_prod_unfold)
next
  show "mset (get_ranked_properties d pid) = mset (joined_scores d pid)"
    by (simp add: get_ranked_properties_def)
next
  show "set (joined_scores d pid)
       = {(prop, score). score \<in> set (property_scores d) \<and> score_profile_id score = pid
            \<and> prop \<in> set (properties d) \<and> prop_id prop = score_property_id score}"
    by (auto simp: joined_scores_def)
next
  fix k
  have "filter (\<lambda>row. (\<lambda>(prop, score). - total_score score) row = - k)
          (get_ranked_properties d pid)
        = filter (\<lambda>row. (\<lambda>(prop, score). - total_score score) row = - k)
            (joined_scores d pid)"
    unfolding get_ranked_properties_def by (rule sort_key_stable)
  then show "filter (\<lambda>row. total_score (snd row) = k) (get_ranked_properties d pid)
            = filter (\<lambda>row. total_score (snd row) = k) (joined_scores d pid)"
    by (simp add: case_prod_unfold)
qed

section \<open>Aggregation\<close>

subsection \<open>Breakdown keys identify rules\<close>













subsection \<open>The weighted mean and its rounding\<close>









section \<open>Idempotence of the batch pass\<close>

subsection \<open>Evaluation reads the catalogue only\<close>

lemma pois_of_json_category_cong:
  "pois d' = pois d \<Longrightarrow> pois_of_json_category d' j = pois_of_json_category d j"
  by (cases j) simp_all

lemma walk_category_score_cong:
  assumes "pois d' = pois d"
  shows "walk_category_score d' la lo m = walk_category_score d la lo m"
proof
  fix j
  show "walk_category_score d' la lo m j = walk_category_score d la lo m j"
    by (simp add: walk_category_score_def pois_of_json_category_cong [OF assms])
qed

lemma evaluate_rule_cong:
  assumes "pois d' = pois d" and "poi_distances d' = poi_distances d"
  shows "evaluate_rule fs d' rule prop = evaluate_rule fs d rule prop"
proof -
  have c: "pois_of_category d' = pois_of_category d"
    by (intro ext) (simp add: pois_of_category_def assms)
  have n: "nearest_precomputed d' = nearest_precomputed d"
    by (intro ext) (simp add: nearest_precomputed_def assms)
  have w: "walk_category_score d' = walk_category_score d"
    by (intro ext) (simp add: walk_category_score_cong [OF assms(1)])
  show ?thesis
    unfolding evaluate_rule_def eval_poi_proximity_def eval_poi_density_def
      eval_walkability_def c n w
    by (rule refl)
qed

lemma score_loop_cong:
  assumes "pois d' = pois d" and "poi_distances d' = poi_distances d"
  shows "score_loop fs d' prop rules (t, w, bd) = score_loop fs d prop rules (t, w, bd)"
proof (induction rules arbitrary: t w bd)
  case Nil
  show ?case by simp
next
  case (Cons r rs)
  show ?case
    by (simp add: evaluate_rule_cong [OF assms] Cons.IH split: sum.split)
qed

lemma score_property_cong:
  assumes "pois d' = pois d" and "poi_distances d' = poi_distances d"
  shows "score_property fs d' prop rules = score_property fs d prop rules"
  by (simp add: score_property_def score_loop_cong [OF assms])

subsection \<open>One step of the pass\<close>

lemma is_score_of_refresh_row [simp]:
  "is_score_of k p (refresh_row prid pid sc bd t r) = is_score_of k p r"
  by (simp add: refresh_row_def is_score_of_def)

lemma filter_refresh_rows:
  "filter (is_score_of k p) (map (refresh_row prid pid sc bd t) rows)
   = map (refresh_row prid pid sc bd t) (filter (is_score_of k p) rows)"
  by (induction rows) simp_all

lemma scalar_one_or_none_Inr:
  "scalar_one_or_none xs = Inr v \<Longrightarrow> (xs = [] \<and> v = None) \<or> (\<exists>x. xs = [x] \<and> v = Some x)"
  by (cases xs rule: scalar_one_or_none.cases) auto

lemma compute_loop_step:
  assumes "compute_loop fs pid rules now (p # ps) (d, c) = Inr res"
  obtains sc bd where "score_property fs d p rules = Inr (sc, bd)"
    and "length (filter (is_score_of (prop_id p) pid) (property_scores d)) \<le> 1"
    and "compute_loop fs pid rules now ps
           (d\<lparr>property_scores :=
                upsert_score (prop_id p) pid sc bd (now c) (property_scores d)\<rparr>, c + 1)
         = Inr res"
proof -
  from assms obtain sc bd where sp: "score_property fs d p rules = Inr (sc, bd)"
    by (cases "score_property fs d p rules") auto
  let ?m = "filter (is_score_of (prop_id p) pid) (property_scores d)"
  from assms sp obtain v where so: "scalar_one_or_none ?m = Inr v"
    by (cases "scalar_one_or_none ?m") auto
  from scalar_one_or_none_Inr [OF so]
  show thesis
  proof
    assume e: "?m = [] \<and> v = None"
    with assms sp so have "compute_loop fs pid rules now ps
           (d\<lparr>property_scores :=
                upsert_score (prop_id p) pid sc bd (now c) (property_scores d)\<rparr>, c + 1)
         = Inr res"
      by (simp add: upsert_score_def)
    with sp e show thesis by (intro that) simp_all
  next
    assume "\<exists>x. ?m = [x] \<and> v = Some x"
    then obtain x where e: "?m = [x]" "v = Some x" by blast
    have "refresh_row (prop_id p) pid sc bd (now c)
          = (\<lambda>r. if is_score_of (prop_id p) pid r
                  then r\<lparr>total_score := sc, breakdown := bd, computed_at := now c\<rparr>
                  else r)"
      by (intro ext) (simp add: refresh_row_def)
    with assms sp so e have "compute_loop fs pid rules now ps
           (d\<lparr>property_scores :=
                upsert_score (prop_id p) pid sc bd (now c) (property_scores d)\<rparr>, c + 1)
         = Inr res"
      by (simp add: upsert_score_def)
    with sp e show thesis by (intro that) simp_all
  qed
qed

lemma compute_loop_refresh:
  assumes "score_property fs d p rules = Inr (sc, bd)"
      and "filter (is_score_of (prop_id p) pid) (property_scores d) = [r]"
  shows "compute_loop fs pid rules now (p # ps) (d, c)
         = compute_loop fs pid rules now ps
             (d\<lparr>property_scores :=
                  map (refresh_row (prop_id p) pid sc bd (now c)) (property_scores d)\<rparr>,
              c + 1)"
proof -
  have "refresh_row (prop_id p) pid sc bd (now c)
        = (\<lambda>r. if is_score_of (prop_id p) pid r
                then r\<lparr>total_score := sc, breakdown := bd, computed_at := now c\<rparr>
                else r)"
    by (intro ext) (simp add: refresh_row_def)
  with assms show ?thesis by simp
qed

lemma upsert_score_one:
  assumes "length (filter (is_score_of prid pid) rows) \<le> 1"
  shows "\<exists>r. filter (is_score_of prid pid) (upsert_score prid pid sc bd t rows) = [r]
             \<and> total_score r = sc \<and> breakdown r = bd"
proof (cases "filter (is_score_of prid pid) rows")
  case Nil
  then show ?thesis by (simp add: upsert_score_def is_score_of_def)
next
  case (Cons x xs)
  with assms have xs: "xs = []" by simp
  from Cons have "x \<in> set (filter (is_score_of prid pid) rows)" by simp
  then have "is_score_of prid pid x" by simp
  with Cons xs show ?thesis
    by (simp add: upsert_score_def filter_refresh_rows refresh_row_def)
qed

lemma upsert_score_other:
  assumes "k \<noteq> prid"
  shows "filter (is_score_of k pid) (upsert_score prid pid sc bd t rows)
         = filter (is_score_of k pid) rows"
proof -
  have "map (refresh_row prid pid sc bd t) (filter (is_score_of k pid) rows)
        = filter (is_score_of k pid) rows"
    using assms by (intro map_idI) (auto simp: refresh_row_def is_score_of_def)
  with assms show ?thesis
    by (simp add: upsert_score_def filter_refresh_rows is_score_of_def)
qed


subsection \<open>What a pass leaves in the table\<close>

lemma latest_None: "latest ps k = None \<longleftrightarrow> k \<notin> prop_id ` set ps"
  by (induction ps) (auto split: option.splits)

lemma latest_Some: "latest ps k = Some q \<Longrightarrow> q \<in> set ps \<and> prop_id q = k"
  by (induction ps) (auto split: option.splits if_splits)

lemma compute_loop_frame:
  "compute_loop fs pid rules now ps (d, c) = Inr (d', c')
   \<Longrightarrow> profiles d' = profiles d \<and> properties d' = properties d \<and> pois d' = pois d
       \<and> poi_distances d' = poi_distances d \<and> c' = c + length ps"
proof (induction ps arbitrary: d c)
  case Nil
  then show ?case by simp
next
  case (Cons p ps)
  from Cons.prems obtain sc bd where
    "compute_loop fs pid rules now ps
       (d\<lparr>property_scores :=
            upsert_score (prop_id p) pid sc bd (now c) (property_scores d)\<rparr>, c + 1)
     = Inr (d', c')"
    by (rule compute_loop_step)
  from Cons.IH [OF this] show ?case by simp
qed

lemma compute_loop_other_keys:
  "compute_loop fs pid rules now ps (d, c) = Inr (d', c') \<Longrightarrow> k \<notin> prop_id ` set ps
   \<Longrightarrow> filter (is_score_of k pid) (property_scores d')
       = filter (is_score_of k pid) (property_scores d)"
proof (induction ps arbitrary: d c)
  case Nil
  then show ?case by simp
next
  case (Cons p ps)
  from Cons.prems(1) obtain sc bd where
    "compute_loop fs pid rules now ps
       (d\<lparr>property_scores :=
            upsert_score (prop_id p) pid sc bd (now c) (property_scores d)\<rparr>, c + 1)
     = Inr (d', c')"
    by (rule compute_loop_step)
  moreover from Cons.prems(2) have "k \<notin> prop_id ` set ps" and "k \<noteq> prop_id p" by auto
  ultimately show ?case
    using Cons.IH by (simp add: upsert_score_other)
qed

lemma compute_loop_rows:
  assumes "compute_loop fs pid rules now ps (d, c) = Inr (d', c')"
      and "pois d = pois d0" and "poi_distances d = poi_distances d0"
      and "latest ps k = Some q"
  shows "\<exists>r. filter (is_score_of k pid) (property_scores d') = [r]
             \<and> score_property fs d0 q rules = Inr (total_score r, breakdown r)"
  using assms
proof (induction ps arbitrary: d c)
  case Nil
  then show ?case by simp
next
  case (Cons p ps)
  let ?T = "\<lambda>sc bd. upsert_score (prop_id p) pid sc bd (now c) (property_scores d)"
  from Cons.prems(1) obtain sc bd where sp: "score_property fs d p rules = Inr (sc, bd)"
    and one: "length (filter (is_score_of (prop_id p) pid) (property_scores d)) \<le> 1"
    and rest: "compute_loop fs pid rules now ps (d\<lparr>property_scores := ?T sc bd\<rparr>, c + 1)
               = Inr (d', c')"
    by (rule compute_loop_step)
  show ?case
  proof (cases "latest ps k")
    case (Some q')
    with Cons.prems(4) have "q' = q" by simp
    with Some Cons.IH [OF rest] Cons.prems(2,3) show ?thesis by simp
  next
    case None
    with Cons.prems(4) have k: "prop_id p = k" and q: "q = p"
      by (auto split: if_splits)
    from None have "k \<notin> prop_id ` set ps" by (simp add: latest_None)
    from compute_loop_other_keys [OF rest this]
    have "filter (is_score_of k pid) (property_scores d')
          = filter (is_score_of k pid) (?T sc bd)" by simp
    moreover from upsert_score_one [OF one, of sc bd "now c"] k
    obtain r where "filter (is_score_of k pid) (?T sc bd) = [r]"
      and "total_score r = sc" and "breakdown r = bd" by auto
    moreover from sp have "score_property fs d0 p rules = Inr (sc, bd)"
      by (simp add: score_property_cong [OF Cons.prems(2,3)])
    ultimately show ?thesis using q by simp
  qed
qed

lemma compute_loop_evaluates:
  assumes "compute_loop fs pid rules now ps (d, c) = Inr (d', c')"
      and "pois d = pois d0" and "poi_distances d = poi_distances d0"
      and "p \<in> set ps"
  shows "\<exists>sc bd. score_property fs d0 p rules = Inr (sc, bd)"
  using assms
proof (induction ps arbitrary: d c)
  case Nil
  then show ?case by simp
next
  case (Cons x xs)
  from Cons.prems(1) obtain sc bd where sp: "score_property fs d x rules = Inr (sc, bd)"
    and rest: "compute_loop fs pid rules now xs
                 (d\<lparr>property_scores :=
                      upsert_score (prop_id x) pid sc bd (now c) (property_scores d)\<rparr>, c + 1)
               = Inr (d', c')"
    by (rule compute_loop_step)
  show ?case
  proof (cases "p = x")
    case True
    with sp show ?thesis by (simp add: score_property_cong [OF Cons.prems(2,3)])
  next
    case False
    with Cons.prems(4) have "p \<in> set xs" by simp
    with Cons.IH [OF rest] Cons.prems(2,3) show ?thesis by simp
  qed
qed


subsection \<open>A second pass\<close>

lemma rescored_Nil: "rescored fs d0 pid rules [] r = score_content r"
  by (simp add: rescored_def)

lemma rescored_step:
  assumes "score_property fs d0 p rules = Inr (sc, bd)"
      and "\<forall>q \<in> set ps. \<exists>sc bd. score_property fs d0 q rules = Inr (sc, bd)"
  shows "rescored fs d0 pid rules ps (refresh_row (prop_id p) pid sc bd t r)
         = rescored fs d0 pid rules (p # ps) r"
proof (cases "is_score_of (prop_id p) pid r")
  case True
  then have k: "score_property_id r = prop_id p" and f: "score_profile_id r = pid"
    by (simp_all add: is_score_of_def)
  show ?thesis
  proof (cases "latest ps (prop_id p)")
    case None
    with True assms show ?thesis
      by (simp add: rescored_def refresh_row_def k f score_content_def)
  next
    case (Some q)
    from latest_Some [OF Some] assms(2)
    obtain sc' bd' where "score_property fs d0 q rules = Inr (sc', bd')" by blast
    with Some True show ?thesis
      by (simp add: rescored_def refresh_row_def k f)
  qed
next
  case False
  then have same: "refresh_row (prop_id p) pid sc bd t r = r"
    by (simp add: refresh_row_def)
  show ?thesis
  proof (cases "score_profile_id r = pid")
    case True
    with False have "prop_id p \<noteq> score_property_id r"
      by (auto simp: is_score_of_def)
    then have "latest (p # ps) (score_property_id r) = latest ps (score_property_id r)"
      by (simp split: option.split)
    then show ?thesis by (simp add: same rescored_def)
  next
    case False
    then show ?thesis by (simp add: same rescored_def)
  qed
qed

lemma compute_loop_again:
  assumes "pois d = pois d0" and "poi_distances d = poi_distances d0"
      and "\<forall>p \<in> set ps. \<exists>sc bd. score_property fs d0 p rules = Inr (sc, bd)"
      and "\<forall>p \<in> set ps. \<exists>r. filter (is_score_of (prop_id p) pid) (property_scores d) = [r]"
  shows "\<exists>d'. compute_loop fs pid rules now ps (d, c) = Inr (d', c + length ps)
              \<and> map score_content (property_scores d')
                  = map (rescored fs d0 pid rules ps) (property_scores d)"
  using assms
proof (induction ps arbitrary: d c)
  case Nil
  show ?case by (simp add: rescored_Nil)
next
  case (Cons p ps)
  from Cons.prems(3) obtain sc bd where sp0: "score_property fs d0 p rules = Inr (sc, bd)"
    by auto
  then have sp: "score_property fs d p rules = Inr (sc, bd)"
    by (simp add: score_property_cong [OF Cons.prems(1,2)])
  from Cons.prems(4) obtain r where
    r: "filter (is_score_of (prop_id p) pid) (property_scores d) = [r]" by auto
  let ?g = "refresh_row (prop_id p) pid sc bd (now c)"
  let ?d = "d\<lparr>property_scores := map ?g (property_scores d)\<rparr>"
  have step: "compute_loop fs pid rules now (p # ps) (d, c)
              = compute_loop fs pid rules now ps (?d, c + 1)"
    using sp r by (rule compute_loop_refresh)
  have "\<forall>q \<in> set ps. \<exists>r. filter (is_score_of (prop_id q) pid) (property_scores ?d) = [r]"
    using Cons.prems(4) by (auto simp: filter_refresh_rows)
  moreover have "\<forall>q \<in> set ps. \<exists>sc bd. score_property fs d0 q rules = Inr (sc, bd)"
    using Cons.prems(3) by simp
  moreover have "pois ?d = pois d0" and "poi_distances ?d = poi_distances d0"
    using Cons.prems(1,2) by simp_all
  ultimately obtain d' where
    run: "compute_loop fs pid rules now ps (?d, c + 1) = Inr (d', c + 1 + length ps)"
    and rows: "map score_content (property_scores d')
               = map (rescored fs d0 pid rules ps) (property_scores ?d)"
    using Cons.IH [of ?d "c + 1"] by blast
  from rows have "map score_content (property_scores d')
                  = map (rescored fs d0 pid rules (p # ps)) (property_scores d)"
    using Cons.prems(3) by (simp add: comp_def rescored_step [OF sp0])
  with step run show ?case by simp
qed

text \<open>
  Claim C8. When a pass of \<open>compute_scores\<close> for a profile has returned, a second
  pass on the resulting session (nothing else changed, any clock) returns too,
  with the same count, and the table of materialised rows holds the same rows in
  the same order with the same total and the same breakdown; in particular the
  rows under every (listing, profile) key agree in everything but \<open>computed_at\<close>.
\<close>

theorem compute_scores_idempotent:
  assumes "compute_scores fs now1 d pid = Inr (n, d1)"
  shows "\<exists>d2. compute_scores fs now2 d1 pid = Inr (n, d2)
              \<and> map score_content (property_scores d2)
                  = map score_content (property_scores d1)
              \<and> (\<forall>prid prof.
                    map score_content (filter (is_score_of prid prof) (property_scores d2))
                    = map score_content (filter (is_score_of prid prof) (property_scores d1)))"
proof -
  have keyed: "\<forall>prid prof.
                 map score_content (filter (is_score_of prid prof) (property_scores d2))
                 = map score_content (filter (is_score_of prid prof) (property_scores d1))"
    if "map score_content (property_scores d2) = map score_content (property_scores d1)"
    for d2
  proof (intro allI)
    fix prid prof
    have "map score_content (filter (is_score_of prid prof) rows)
          = filter (\<lambda>c. fst c = prid \<and> fst (snd c) = prof) (map score_content rows)"
      for rows
      by (induction rows) (simp_all add: is_score_of_def score_content_def)
    with that show "map score_content (filter (is_score_of prid prof) (property_scores d2))
          = map score_content (filter (is_score_of prid prof) (property_scores d1))"
      by simp
  qed
  show ?thesis
  proof (cases "get_profile d pid")
    case None
    with assms have "d1 = d" and "n = 0" by (simp_all add: compute_scores_def)
    with None have "compute_scores fs now2 d1 pid = Inr (n, d1)"
      by (simp add: compute_scores_def)
    with keyed [of d1] show ?thesis by simp
  next
    case (Some pr)
    show ?thesis
    proof (cases "scoring_rules pr = []")
      case True
      with Some assms have "d1 = d" and "n = 0" by (simp_all add: compute_scores_def)
      with Some True have "compute_scores fs now2 d1 pid = Inr (n, d1)"
        by (simp add: compute_scores_def)
      with keyed [of d1] show ?thesis by simp
    next
      case False
      let ?rules = "scoring_rules pr"
      let ?ps = "properties d"
      from assms Some False
      have run1: "compute_loop fs pid ?rules now1 ?ps (d, 0) = Inr (d1, n)"
        by (auto simp: compute_scores_def split: sum.splits)
      from compute_loop_frame [OF run1]
      have fr: "profiles d1 = profiles d" "properties d1 = properties d" "pois d1 = pois d"
        "poi_distances d1 = poi_distances d" "n = length ?ps" by simp_all
      have ev: "\<forall>p \<in> set ?ps. \<exists>sc bd. score_property fs d p ?rules = Inr (sc, bd)"
        using compute_loop_evaluates [OF run1 refl refl] by blast
      have one: "\<forall>p \<in> set ?ps.
                   \<exists>r. filter (is_score_of (prop_id p) pid) (property_scores d1) = [r]"
      proof
        fix p
        assume "p \<in> set ?ps"
        then have "latest ?ps (prop_id p) \<noteq> None" by (simp add: latest_None)
        then obtain q where "latest ?ps (prop_id p) = Some q" by auto
        from compute_loop_rows [OF run1 refl refl this]
        show "\<exists>r. filter (is_score_of (prop_id p) pid) (property_scores d1) = [r]"
          by blast
      qed
      from compute_loop_again [OF fr(3,4) ev one, of now2 0]
      obtain d2 where
        run2: "compute_loop fs pid ?rules now2 ?ps (d1, 0) = Inr (d2, length ?ps)"
        and rows: "map score_content (property_scores d2)
                   = map (rescored fs d pid ?rules ?ps) (property_scores d1)"
        by auto
      have "rescored fs d pid ?rules ?ps r = score_content r"
        if r: "r \<in> set (property_scores d1)" for r
      proof (cases "score_profile_id r = pid")
        case False
        then show ?thesis by (simp add: rescored_def)
      next
        case True
        show ?thesis
        proof (cases "latest ?ps (score_property_id r)")
          case None
          then show ?thesis by (simp add: rescored_def)
        next
          case (Some q)
          from compute_loop_rows [OF run1 refl refl Some]
          obtain r' where
            f: "filter (is_score_of (score_property_id r) pid) (property_scores d1) = [r']"
            and v: "score_property fs d q ?rules = Inr (total_score r', breakdown r')"
            by blast
          from r True have "r \<in> set (filter (is_score_of (score_property_id r) pid)
                                       (property_scores d1))"
            by (simp add: is_score_of_def)
          with f have "r = r'" by simp
          with v Some True show ?thesis by (simp add: rescored_def score_content_def)
        qed
      qed
      then have "map (rescored fs d pid ?rules ?ps) (property_scores d1)
                 = map score_content (property_scores d1)"
        by (intro map_cong) simp_all
      with rows have same: "map score_content (property_scores d2)
                            = map score_content (property_scores d1)" by simp
      from Some fr(1) have "get_profile d1 pid = Some pr" by (simp add: get_profile_def)
      with False fr(2,5) run2 have "compute_scores fs now2 d1 pid = Inr (n, d2)"
        by (simp add: compute_scores_def)
      with same keyed [OF same] show ?thesis by blast
    qed
  qed
qed


text \<open>
  Two passes over the catalogue with the metro station, at clock readings 5 and
  9: the one row keeps the total 60 and its breakdown.
\<close>

theorem compute_scores_idempotent_witness:
  "compute_scores no_parse (\<lambda>n. 5) metro_db 1
     = Inr (1, metro_db\<lparr>property_scores := [metro_row 5]\<rparr>)
   \<and> compute_scores no_parse (\<lambda>n. 9) (metro_db\<lparr>property_scores := [metro_row 5]\<rparr>) 1
     = Inr (1, metro_db\<lparr>property_scores := [metro_row 9]\<rparr>)
   \<and> score_content (metro_row 9) = score_content (metro_row 5)"
proof -
  let ?d1 = "metro_db\<lparr>property_scores := [metro_row 5]\<rparr>"
  let ?d2 = "metro_db\<lparr>property_scores := [metro_row 9]\<rparr>"
  let ?bd = "[(''rule_1_poi_proximity'',
               \<lparr>raw_value = 3 / 5, entry_weight = 1, weighted = 3 / 5 :: real\<rparr>)]"
  have ev: "evaluate_rule no_parse metro_db proximity_rule flat_bcn = Inr (3 / 5)"
    by (simp add: evaluate_rule_def eval_poi_proximity_def nearest_precomputed_def
        metro_db_def metro_def flat_bcn_def proximity_rule_def truthy_float_def
        truthy_int_def or_default_def)
  have key: "rule_key proximity_rule = ''rule_1_poi_proximity''"
    by (simp add: rule_key_def proximity_rule_def str_int_def str_nat.simps digit_char_def)
  have w: "weight proximity_rule = 1" by (simp add: proximity_rule_def)
  have rd: "py_round 3 (3 / 5) = 3 / 5" "py_round 2 60 = 60"
    by (simp_all add: py_round_def Let_def)
  have sp: "score_property no_parse metro_db flat_bcn [proximity_rule] = Inr (60, ?bd)"
    by (simp add: score_property_def ev key w rd breakdown_of_def)
  have sp1: "score_property no_parse ?d1 flat_bcn [proximity_rule] = Inr (60, ?bd)"
    using sp by (simp add: score_property_cong [of ?d1 metro_db])
  have tabs: "profiles metro_db = [\<lparr>profile_id = 1, user_id = 1, profile_name = ''Commuter'',
                                   scoring_rules = [proximity_rule]\<rparr>]"
    "properties metro_db = [flat_bcn]" "property_scores metro_db = []"
    by (simp_all add: metro_db_def)
  have pid: "prop_id flat_bcn = 1" by (simp add: flat_bcn_def)
  have h1: "compute_scores no_parse (\<lambda>n. 5) metro_db 1 = Inr (1, ?d1)"
    by (simp add: compute_scores_def get_profile_def tabs sp pid metro_row_def)
  have k5: "is_score_of 1 1 (metro_row 5)"
    by (simp add: is_score_of_def metro_row_def)
  have u: "(metro_row 5)\<lparr>total_score := 60, breakdown := ?bd, computed_at := 9\<rparr>
           = metro_row 9"
    by (simp add: metro_row_def)
  have h2: "compute_scores no_parse (\<lambda>n. 9) ?d1 1 = Inr (1, ?d2)"
    by (simp add: compute_scores_def get_profile_def tabs sp1 pid k5 u)
  from compute_scores_idempotent [OF h1, of "\<lambda>n. 9"] h2
  have "map score_content (property_scores ?d2) = map score_content (property_scores ?d1)"
    by auto
  then have "score_content (metro_row 9) = score_content (metro_row 5)" by simp
  with h1 h2 show ?thesis by simp
qed

end
